theory Spec2Isabelle
  imports Main "HOL-Library.Word"
begin

section \<open>Errors and pointers\<close>

text \<open>
  Go errors as values. \<open>WaitingForSubResources\<close> is the sentinel of the repository's
  \<open>errors\<close> package; \<open>ProviderError\<close> is an error returned by a cloud or cluster client,
  identified by its code; \<open>AsgCountError n\<close> is
  \<^verbatim>\<open>fmt.Errorf("expected asg count one found asgs %d", n)\<close>; \<open>Errorf msg e\<close> is
  \<^verbatim>\<open>fmt.Errorf(msg + "%w", e)\<close>, which wraps \<open>e\<close>.
\<close>

datatype error =
    WaitingForSubResources
  | ProviderError string
  | AsgCountError nat
  | Errorf string error

text \<open>The standard library's \<^verbatim>\<open>errors.Is\<close>: walk the chain of wrapped errors.\<close>

fun errors_Is :: "error \<Rightarrow> error \<Rightarrow> bool" where
  "errors_Is (Errorf msg e) target = (Errorf msg e = target \<or> errors_Is e target)"
| "errors_Is e target = (e = target)"

text \<open>
  What a Go function that returns a value and an error can do: return the value, return
  an error, or panic on a nil pointer dereference.
\<close>

datatype 'a result = Ok 'a | Err error | Panic

text \<open>The two results of the \<open>status\<close> package that the controller returns.\<close>

datatype status = Created | Terminated

text \<open>A \<^verbatim>\<open>*string\<close> is a \<open>string option\<close>; \<^verbatim>\<open>aws.StringValue\<close> reads nil as the empty string.\<close>

definition aws_StringValue :: "string option \<Rightarrow> string" where
  "aws_StringValue p = (case p of None \<Rightarrow> '''' | Some s \<Rightarrow> s)"

fun strings_Join :: "string list \<Rightarrow> string \<Rightarrow> string" where
  "strings_Join [] sep = ''''"
| "strings_Join [x] sep = x"
| "strings_Join (x # y # ys) sep = x @ sep @ strings_Join (y # ys) sep"

section \<open>The data of the autoscaling group controller\<close>

text \<open>
  The desired-state object \<^verbatim>\<open>v1alpha1.AutoScalingGroup\<close>, with the fields the controller
  reads.
\<close>

record AutoScalingGroupSpec =
  ClusterName :: string
  InstanceCount :: int

record AutoScalingGroup =
  Name :: string
  Spec :: AutoScalingGroupSpec

text \<open>
  The provider's records. \<open>AutoScalingGroupName\<close> is a required member of a described
  group and is modelled as a string; the members the controller reads through
  \<^verbatim>\<open>aws.StringValue\<close> or dereferences in a request are pointers. The elements of
  the lists the provider answers are taken to be non-nil, and so is the output of a
  successful describe of groups, which the controller reads without a test.
\<close>

record Group =
  AutoScalingGroupName :: string
  Status :: "string option"

record LoadBalancerTargetGroupState =
  LoadBalancerTargetGroupARN :: "string option"

record DescribeLoadBalancerTargetGroupsOutput =
  LoadBalancerTargetGroups :: "LoadBalancerTargetGroupState list"

record TargetGroup =
  TargetGroupArn :: "string option"

record 'tags CreateAutoScalingGroupInput =
  Create_AutoScalingGroupName :: string
  DesiredCapacity :: "64 word"
  MaxSize :: "64 word"
  MinSize :: "64 word"
  LaunchTemplateName :: string
  VPCZoneIdentifier :: string
  Tags :: 'tags

text \<open>
  The autoscaling client, given by what each of its operations answers during one pass.
  A describe of groups takes the list of names; a describe of attachments takes the group
  name and may answer a nil output; attach and detach take the group name and the list of
  ARNs; delete takes the group name and the \<open>ForceDelete\<close> flag.
\<close>

record 'tags AutoScaling =
  DescribeAutoScalingGroupsWithContext :: "string list \<Rightarrow> error + Group list"
  DescribeLoadBalancerTargetGroupsWithContext ::
    "string \<Rightarrow> error + DescribeLoadBalancerTargetGroupsOutput option"
  AttachLoadBalancerTargetGroupsWithContext :: "string \<Rightarrow> string list \<Rightarrow> error option"
  DetachLoadBalancerTargetGroupsWithContext :: "string \<Rightarrow> string list \<Rightarrow> error option"
  DeleteAutoScalingGroupWithContext :: "string \<Rightarrow> bool \<Rightarrow> error option"
  CreateAutoScalingGroup :: "'tags CreateAutoScalingGroupInput \<Rightarrow> error option"

text \<open>
  The helpers \<open>getPrivateSubnetIDs\<close> and \<open>getTargetGroup\<close> are defined in other files
  of the package. Each takes a client and a name, so the EC2 client is represented by the
  subnets the helper resolves through it for a cluster, and the ELBV2 client by the pair
  of target group pointer and error the helper returns for a name.
\<close>

type_synonym EC2 = "string \<Rightarrow> error + string list"
type_synonym ELBV2 = "string \<Rightarrow> TargetGroup option \<times> error option"

definition getPrivateSubnetIDs :: "EC2 \<Rightarrow> string \<Rightarrow> error + string list" where
  "getPrivateSubnetIDs ec2 clusterName = ec2 clusterName"

definition getTargetGroup :: "ELBV2 \<Rightarrow> string \<Rightarrow> TargetGroup option \<times> error option" where
  "getTargetGroup elbv2 groupName = elbv2 groupName"

record 'tags autoScalingGroup =
  ec2api :: EC2
  autoscalingAPI :: "'tags AutoScaling"
  elbv2api :: ELBV2

text \<open>
  Two more functions the controller calls are declared elsewhere and are parameters:
  the predicate \<open>IsTargetGroupNotExists\<close> of the \<open>errors\<close> package and the tag generator.
\<close>

record 'tags pkg =
  IsTargetGroupNotExists :: "error \<Rightarrow> bool"
  generateAutoScalingTags :: "string \<Rightarrow> string \<Rightarrow> 'tags"

text \<open>Every request a pass sends, in the order it is sent.\<close>

datatype 'tags call =
    Call_DescribeAutoScalingGroups "string list"
  | Call_getPrivateSubnetIDs string
  | Call_CreateAutoScalingGroup "'tags CreateAutoScalingGroupInput"
  | Call_DescribeLoadBalancerTargetGroups string
  | Call_getTargetGroup string
  | Call_AttachLoadBalancerTargetGroups string "string list"
  | Call_DetachLoadBalancerTargetGroups string "string list"
  | Call_DeleteAutoScalingGroup string bool

fun is_create :: "'tags call \<Rightarrow> bool" where
  "is_create (Call_CreateAutoScalingGroup i) = True"
| "is_create c = False"

fun is_attach :: "'tags call \<Rightarrow> bool" where
  "is_attach (Call_AttachLoadBalancerTargetGroups n arns) = True"
| "is_attach c = False"

fun is_detach :: "'tags call \<Rightarrow> bool" where
  "is_detach (Call_DetachLoadBalancerTargetGroups n arns) = True"
| "is_detach c = False"

fun is_delete :: "'tags call \<Rightarrow> bool" where
  "is_delete (Call_DeleteAutoScalingGroup n f) = True"
| "is_delete c = False"

section \<open>The autoscaling group controller\<close>

definition getAutoScalingGroup ::
  "'tags autoScalingGroup \<Rightarrow> string \<Rightarrow> 'tags call list \<times> (error + Group option)" where
  "getAutoScalingGroup a groupName =
     ([Call_DescribeAutoScalingGroups [groupName]],
      case DescribeAutoScalingGroupsWithContext (autoscalingAPI a) [groupName] of
        Inl err \<Rightarrow> Inl (Errorf ''getting autoscaling group, '' err)
      | Inr output \<Rightarrow>
          if length output = 0 then Inr None
          else if length output > 1 then Inl (AsgCountError (length output))
          else Inr (Some (output ! 0)))"

definition createAutoScalingGroup ::
  "'tags pkg \<Rightarrow> 'tags autoScalingGroup \<Rightarrow> AutoScalingGroup \<Rightarrow> 'tags call list \<times> error option" where
  "createAutoScalingGroup p a asg =
     (case getPrivateSubnetIDs (ec2api a) (ClusterName (Spec asg)) of
        Inl err \<Rightarrow> ([Call_getPrivateSubnetIDs (ClusterName (Spec asg))], Some err)
      | Inr privateSubnets \<Rightarrow>
          if length privateSubnets = 0
          then ([Call_getPrivateSubnetIDs (ClusterName (Spec asg))],
                Some (Errorf ''waiting for private subnets, '' WaitingForSubResources))
          else
            let input = \<lparr>Create_AutoScalingGroupName = Name asg,
                         DesiredCapacity = word_of_int (InstanceCount (Spec asg)),
                         MaxSize = 4,
                         MinSize = 1,
                         LaunchTemplateName = Name asg,
                         VPCZoneIdentifier = strings_Join privateSubnets '','',
                         Tags = generateAutoScalingTags p (Name asg) (ClusterName (Spec asg))\<rparr>
            in ([Call_getPrivateSubnetIDs (ClusterName (Spec asg)), Call_CreateAutoScalingGroup input],
                case CreateAutoScalingGroup (autoscalingAPI a) input of
                  Some err \<Rightarrow> Some (Errorf ''creating autoscaling group, '' err)
                | None \<Rightarrow> None))"

text \<open>
  The described attachments: \<^verbatim>\<open>output == nil || len(output.LoadBalancerTargetGroups) == 0\<close>
  holds exactly when this list is empty.
\<close>

definition attached ::
  "DescribeLoadBalancerTargetGroupsOutput option \<Rightarrow> LoadBalancerTargetGroupState list" where
  "attached output = (case output of None \<Rightarrow> [] | Some out \<Rightarrow> LoadBalancerTargetGroups out)"

text \<open>
  The last part of \<open>Reconcile\<close>, from the test of the described attachments to the return:
  attach when nothing is attached, detach the first attachment when its ARN is not the
  expected one, else nothing. \<^verbatim>\<open>targetGroup.TargetGroupArn\<close> panics on a nil target group,
  and \<^verbatim>\<open>*p\<close> on a nil string pointer; the arguments of a call are evaluated before the call.
\<close>

definition attachTargetGroup ::
  "'tags autoScalingGroup \<Rightarrow> AutoScalingGroup \<Rightarrow> DescribeLoadBalancerTargetGroupsOutput option \<Rightarrow>
   TargetGroup option \<Rightarrow> 'tags call list \<times> status result" where
  "attachTargetGroup a asgObj output targetGroup =
     (if length (attached output) = 0 then
        (case targetGroup of
           None \<Rightarrow> ([], Panic)
         | Some tg \<Rightarrow>
             (case TargetGroupArn tg of
                None \<Rightarrow> ([], Panic)
              | Some arn \<Rightarrow>
                  ([Call_AttachLoadBalancerTargetGroups (Name asgObj) [arn]],
                   case AttachLoadBalancerTargetGroupsWithContext (autoscalingAPI a) (Name asgObj) [arn] of
                     Some err \<Rightarrow> Err err
                   | None \<Rightarrow> Ok Created)))
      else
        (case targetGroup of
           None \<Rightarrow> ([], Panic)
         | Some tg \<Rightarrow>
             if aws_StringValue (LoadBalancerTargetGroupARN (attached output ! 0))
                  \<noteq> aws_StringValue (TargetGroupArn tg)
             then
               (case LoadBalancerTargetGroupARN (attached output ! 0) of
                  None \<Rightarrow> ([], Panic)
                | Some arn \<Rightarrow>
                    ([Call_DetachLoadBalancerTargetGroups (Name asgObj) [arn]],
                     case DetachLoadBalancerTargetGroupsWithContext (autoscalingAPI a) (Name asgObj) [arn] of
                       Some err \<Rightarrow> Err (Errorf ''detaching old target group, '' err)
                     | None \<Rightarrow> Ok Created))
             else ([], Ok Created)))"

definition Reconcile ::
  "'tags pkg \<Rightarrow> 'tags autoScalingGroup \<Rightarrow> AutoScalingGroup \<Rightarrow> 'tags call list \<times> status result" where
  "Reconcile p a asgObj =
     (case getAutoScalingGroup a (Name asgObj) of
        (cs1, Inl err) \<Rightarrow> (cs1, Err (Errorf ''getting autoscaling groups, '' err))
      | (cs1, Inr existingASG) \<Rightarrow>
          (case (if existingASG = None then createAutoScalingGroup p a asgObj else ([], None)) of
             (cs2, Some err) \<Rightarrow> (cs1 @ cs2, Err err)
           | (cs2, None) \<Rightarrow>
               (case DescribeLoadBalancerTargetGroupsWithContext (autoscalingAPI a) (Name asgObj) of
                  Inl err \<Rightarrow>
                    (cs1 @ cs2 @ [Call_DescribeLoadBalancerTargetGroups (Name asgObj)], Err err)
                | Inr output \<Rightarrow>
                    (case getTargetGroup (elbv2api a) (Name asgObj) of
                       (targetGroup, err) \<Rightarrow>
                         if (case err of None \<Rightarrow> False | Some e \<Rightarrow> IsTargetGroupNotExists p e)
                         then (cs1 @ cs2 @ [Call_DescribeLoadBalancerTargetGroups (Name asgObj),
                                            Call_getTargetGroup (Name asgObj)],
                               Err (Errorf ''waiting for target group, '' WaitingForSubResources))
                         else
                           (case attachTargetGroup a asgObj output targetGroup of
                              (cs3, r) \<Rightarrow>
                                (cs1 @ cs2 @ [Call_DescribeLoadBalancerTargetGroups (Name asgObj),
                                              Call_getTargetGroup (Name asgObj)] @ cs3, r))))))"

definition Finalize ::
  "'tags autoScalingGroup \<Rightarrow> AutoScalingGroup \<Rightarrow> 'tags call list \<times> status result" where
  "Finalize a asgObj =
     (case getAutoScalingGroup a (Name asgObj) of
        (cs1, Inl err) \<Rightarrow> (cs1, Err (Errorf ''getting autoscaling groups, '' err))
      | (cs1, Inr existingASG) \<Rightarrow>
          (case existingASG of
             None \<Rightarrow> (cs1, Ok Terminated)
           | Some g \<Rightarrow>
               if aws_StringValue (Status g) \<noteq> ''Delete in progress''
               then (cs1 @ [Call_DeleteAutoScalingGroup (AutoScalingGroupName g) True],
                     case DeleteAutoScalingGroupWithContext (autoscalingAPI a) (AutoScalingGroupName g) True of
                       Some err \<Rightarrow> Err err
                     | None \<Rightarrow> Ok Terminated)
               else (cs1, Ok Terminated)))"

section \<open>The NAT gateway child object\<close>

text \<open>
  \<open>NatGateway.Create\<close> works on the cluster's object store through a client with \<open>Get\<close>
  and \<open>Create\<close>. The key of a \<open>Get\<close> is the pair of namespace and name. The type of the
  child's spec, its zero value, the helper \<open>ObjectMeta\<close> and the library predicate
  \<open>IsNotFound\<close> are declared in other packages and are parameters.
\<close>

record ControlPlane =
  ControlPlane_Namespace :: string
  ControlPlane_Name :: string

record ('meta, 'spec) NatGatewayObject =
  NatGateway_ObjectMeta :: 'meta
  NatGateway_Spec :: 'spec

record ('meta, 'spec) KubeClient =
  Get :: "string \<times> string \<Rightarrow> error option"
  Create :: "('meta, 'spec) NatGatewayObject \<Rightarrow> error option"

record ('meta, 'spec) resource_pkg =
  IsNotFound :: "error \<Rightarrow> bool"
  ObjectMeta :: "ControlPlane \<Rightarrow> string \<Rightarrow> 'meta"
  NatGatewaySpec_zero :: 'spec

datatype ('meta, 'spec) kube_call =
    Call_Get "string \<times> string"
  | Call_Create "('meta, 'spec) NatGatewayObject"

fun is_kube_create :: "('meta, 'spec) kube_call \<Rightarrow> bool" where
  "is_kube_create (Call_Create obj) = True"
| "is_kube_create c = False"

definition NatGateway_exists ::
  "('meta, 'spec) KubeClient \<Rightarrow> string \<Rightarrow> string \<Rightarrow> ('meta, 'spec) kube_call list \<times> error option" where
  "NatGateway_exists n ns objName =
     ([Call_Get (ns, objName)],
      case Get n (ns, objName) of Some err \<Rightarrow> Some err | None \<Rightarrow> None)"

definition NatGateway_create ::
  "('meta, 'spec) resource_pkg \<Rightarrow> ('meta, 'spec) KubeClient \<Rightarrow> ControlPlane \<Rightarrow>
   ('meta, 'spec) kube_call list \<times> error option" where
  "NatGateway_create r n controlPlane =
     (let obj = \<lparr>NatGateway_ObjectMeta = ObjectMeta r controlPlane '''',
                 NatGateway_Spec = NatGatewaySpec_zero r\<rparr>
      in ([Call_Create obj],
          case Create n obj of
            Some err \<Rightarrow> Some (Errorf ''creating internet gateway kube object, '' err)
          | None \<Rightarrow> None))"

definition NatGateway_Create ::
  "('meta, 'spec) resource_pkg \<Rightarrow> ('meta, 'spec) KubeClient \<Rightarrow> ControlPlane \<Rightarrow>
   ('meta, 'spec) kube_call list \<times> error option" where
  "NatGateway_Create r n controlPlane =
     (case NatGateway_exists n (ControlPlane_Namespace controlPlane) (ControlPlane_Name controlPlane) of
        (cs1, Some err) \<Rightarrow>
          if IsNotFound r err then
            (case NatGateway_create r n controlPlane of
               (cs2, Some err2) \<Rightarrow>
                 (cs1 @ cs2, Some (Errorf ''creating internet gateway kube object, '' err2))
             | (cs2, None) \<Rightarrow> (cs1 @ cs2, None))
          else (cs1, Some (Errorf ''getting internet gateway object, '' err))
      | (cs1, None) \<Rightarrow> (cs1, None))"

section \<open>Concrete inputs\<close>

text \<open>
  A desired-state object, the parameters, and a controller whose clients answer as given:
  the described groups, the private subnets, the described attachments, the answer of the
  target group lookup, and the error (or nil) of every create, attach, detach and delete.
\<close>

definition asg0 :: AutoScalingGroup where
  "asg0 = \<lparr>Name = ''x-asg'', Spec = \<lparr>ClusterName = ''x'', InstanceCount = 2\<rparr>\<rparr>"

definition pkg0 :: "(string \<times> string) list pkg" where
  "pkg0 = \<lparr>IsTargetGroupNotExists = (\<lambda>e. e = ProviderError ''TargetGroupNotFound''),
           generateAutoScalingTags = (\<lambda>n c. [(''cluster'', c)])\<rparr>"

definition controller ::
  "Group list \<Rightarrow> string list \<Rightarrow> LoadBalancerTargetGroupState list \<Rightarrow>
   TargetGroup option \<times> error option \<Rightarrow> error option \<Rightarrow> (string \<times> string) list autoScalingGroup" where
  "controller groups subnets atts lookup werr =
     \<lparr>ec2api = (\<lambda>c. Inr subnets),
      autoscalingAPI =
        \<lparr>DescribeAutoScalingGroupsWithContext = (\<lambda>ns. Inr groups),
         DescribeLoadBalancerTargetGroupsWithContext =
           (\<lambda>n. Inr (Some \<lparr>LoadBalancerTargetGroups = atts\<rparr>)),
         AttachLoadBalancerTargetGroupsWithContext = (\<lambda>n arns. werr),
         DetachLoadBalancerTargetGroupsWithContext = (\<lambda>n arns. werr),
         DeleteAutoScalingGroupWithContext = (\<lambda>n f. werr),
         CreateAutoScalingGroup = (\<lambda>i. werr)\<rparr>,
      elbv2api = (\<lambda>n. lookup)\<rparr>"

definition group0 :: Group where
  "group0 = \<lparr>AutoScalingGroupName = ''x-asg'', Status = None\<rparr>"

definition group_deleting :: Group where
  "group_deleting = \<lparr>AutoScalingGroupName = ''x-asg'', Status = Some ''Delete in progress''\<rparr>"

definition att :: "string \<Rightarrow> LoadBalancerTargetGroupState" where
  "att arn = \<lparr>LoadBalancerTargetGroupARN = Some arn\<rparr>"

definition tg_found :: "string \<Rightarrow> TargetGroup option \<times> error option" where
  "tg_found arn = (Some \<lparr>TargetGroupArn = Some arn\<rparr>, None)"

definition controlPlane0 :: ControlPlane where
  "controlPlane0 = \<lparr>ControlPlane_Namespace = ''default'', ControlPlane_Name = ''x''\<rparr>"

definition resource_pkg0 :: "(string \<times> string, unit) resource_pkg" where
  "resource_pkg0 = \<lparr>IsNotFound = (\<lambda>e. e = ProviderError ''NotFound''),
                    ObjectMeta = (\<lambda>cp suffix. (ControlPlane_Namespace cp, ControlPlane_Name cp @ suffix)),
                    NatGatewaySpec_zero = ()\<rparr>"

definition kubeClient :: "error option \<Rightarrow> error option \<Rightarrow> (string \<times> string, unit) KubeClient" where
  "kubeClient gerr cerr = \<lparr>Get = (\<lambda>k. gerr), Create = (\<lambda>obj. cerr)\<rparr>"

section \<open>Auxiliary facts about one pass\<close>

lemmas pass_defs = Reconcile_def getAutoScalingGroup_def createAutoScalingGroup_def
  attachTargetGroup_def getPrivateSubnetIDs_def getTargetGroup_def attached_def aws_StringValue_def

lemmas input_defs = asg0_def pkg0_def controller_def group0_def group_deleting_def att_def
  tg_found_def

lemma getAutoScalingGroup_calls:
  "fst (getAutoScalingGroup a n) = [Call_DescribeAutoScalingGroups [n]]"
  by (simp add: getAutoScalingGroup_def)

lemma createAutoScalingGroup_calls:
  "filter is_attach (fst (createAutoScalingGroup p a asg)) = []"
  "filter is_detach (fst (createAutoScalingGroup p a asg)) = []"
  by (simp_all add: createAutoScalingGroup_def Let_def split: sum.splits)

text \<open>
  A pass either returns an error before it reaches the attachments, having sent neither
  an attach nor a detach, or it ends with the last part of \<open>Reconcile\<close>.
\<close>

lemma Reconcile_calls:
  "((\<exists>e. snd (Reconcile p a asgObj) = Err e)
      \<and> filter is_attach (fst (Reconcile p a asgObj)) = []
      \<and> filter is_detach (fst (Reconcile p a asgObj)) = [])
 \<or> (\<exists>out. DescribeLoadBalancerTargetGroupsWithContext (autoscalingAPI a) (Name asgObj) = Inr out
      \<and> snd (Reconcile p a asgObj) =
          snd (attachTargetGroup a asgObj out (fst (getTargetGroup (elbv2api a) (Name asgObj))))
      \<and> filter is_attach (fst (Reconcile p a asgObj)) =
          filter is_attach (fst (attachTargetGroup a asgObj out (fst (getTargetGroup (elbv2api a) (Name asgObj)))))
      \<and> filter is_detach (fst (Reconcile p a asgObj)) =
          filter is_detach (fst (attachTargetGroup a asgObj out (fst (getTargetGroup (elbv2api a) (Name asgObj))))))"
proof (cases "getAutoScalingGroup a (Name asgObj)")
  case (Pair cs1 r1)
  note g = Pair
  have cs1: "filter is_attach cs1 = []" "filter is_detach cs1 = []"
    using getAutoScalingGroup_calls[of a "Name asgObj"] g by auto
  show ?thesis
  proof (cases r1)
    case (Inl e)
    with g cs1 show ?thesis by (simp add: Reconcile_def)
  next
    case (Inr existingASG)
    note r = Inr
    show ?thesis
    proof (cases "if existingASG = None then createAutoScalingGroup p a asgObj else ([], None)")
      case (Pair cs2 e2)
      note c = Pair
      have cs2: "filter is_attach cs2 = []" "filter is_detach cs2 = []"
        using c createAutoScalingGroup_calls[of p a asgObj] by (auto split: if_splits)
      show ?thesis
      proof (cases e2)
        case (Some e)
        with g r c cs1 cs2 show ?thesis by (simp add: Reconcile_def)
      next
        case None
        note n = None
        show ?thesis
        proof (cases "DescribeLoadBalancerTargetGroupsWithContext (autoscalingAPI a) (Name asgObj)")
          case (Inl e)
          with g r c n cs1 cs2 show ?thesis by (simp add: Reconcile_def)
        next
          case (Inr out)
          note d = Inr
          show ?thesis
          proof (cases "getTargetGroup (elbv2api a) (Name asgObj)")
            case (Pair tgo err)
            show ?thesis
              using g r c n d Pair cs1 cs2
              by (cases "attachTargetGroup a asgObj out tgo") (simp add: Reconcile_def)
          qed
        qed
      qed
    qed
  qed
qed

text \<open>What the last part of \<open>Reconcile\<close> did when it returned \<open>Created\<close>.\<close>

lemma attachTargetGroup_Created:
  assumes "snd (attachTargetGroup a asgObj output tgo) = Ok Created"
  shows "\<exists>tg. tgo = Some tg
      \<and> ((attached output = []
           \<and> (\<exists>arn. TargetGroupArn tg = Some arn
                \<and> fst (attachTargetGroup a asgObj output tgo) =
                    [Call_AttachLoadBalancerTargetGroups (Name asgObj) [arn]]
                \<and> AttachLoadBalancerTargetGroupsWithContext (autoscalingAPI a) (Name asgObj) [arn] = None))
        \<or> (attached output \<noteq> []
           \<and> aws_StringValue (LoadBalancerTargetGroupARN (attached output ! 0)) =
               aws_StringValue (TargetGroupArn tg)
           \<and> fst (attachTargetGroup a asgObj output tgo) = [])
        \<or> (attached output \<noteq> []
           \<and> aws_StringValue (LoadBalancerTargetGroupARN (attached output ! 0)) \<noteq>
               aws_StringValue (TargetGroupArn tg)
           \<and> (\<exists>arn. LoadBalancerTargetGroupARN (attached output ! 0) = Some arn
                \<and> fst (attachTargetGroup a asgObj output tgo) =
                    [Call_DetachLoadBalancerTargetGroups (Name asgObj) [arn]]
                \<and> DetachLoadBalancerTargetGroupsWithContext (autoscalingAPI a) (Name asgObj) [arn] = None)))"
  using assms
  by (cases tgo) (auto simp add: attachTargetGroup_def split: option.splits if_splits)

lemma attachTargetGroup_detach_first:
  assumes "attached output = x # xs"
  shows "filter is_detach (fst (attachTargetGroup a asgObj output tgo)) = []
       \<or> (\<exists>arn. LoadBalancerTargetGroupARN x = Some arn
            \<and> filter is_detach (fst (attachTargetGroup a asgObj output tgo)) =
                [Call_DetachLoadBalancerTargetGroups (Name asgObj) [arn]])"
  using assms
  by (cases tgo) (auto simp add: attachTargetGroup_def split: option.splits)

lemma Finalize_calls_le:
  "length (filter is_delete (fst (Finalize a asgObj))) \<le> 1"
  by (simp add: Finalize_def getAutoScalingGroup_def split: sum.splits option.splits)

section \<open>Reconcile\<close>

text \<open>
  C1. Idempotence of \<open>Reconcile\<close>. When the pass observes the converged state (the describe
  of groups answers exactly one group, the described attachments are non-empty, the
  target group lookup succeeds, and the ARN of the first attachment equals the ARN of the
  expected target group), it returns \<open>Created\<close> and sends the three reads only: no create,
  no attach and no detach. A second call that observes the same provider state is this
  same pass, so it sends nothing more and reports the same status.
\<close>

theorem Reconcile_idempotent:
  assumes "DescribeAutoScalingGroupsWithContext (autoscalingAPI a) [Name asgObj] = Inr [g]"
    and "DescribeLoadBalancerTargetGroupsWithContext (autoscalingAPI a) (Name asgObj) = Inr output"
    and "attached output = x # xs"
    and "getTargetGroup (elbv2api a) (Name asgObj) = (Some tg, None)"
    and "aws_StringValue (LoadBalancerTargetGroupARN x) = aws_StringValue (TargetGroupArn tg)"
  shows "Reconcile p a asgObj =
           ([Call_DescribeAutoScalingGroups [Name asgObj],
             Call_DescribeLoadBalancerTargetGroups (Name asgObj),
             Call_getTargetGroup (Name asgObj)], Ok Created)
       \<and> filter is_create (fst (Reconcile p a asgObj)) = []
       \<and> filter is_attach (fst (Reconcile p a asgObj)) = []
       \<and> filter is_detach (fst (Reconcile p a asgObj)) = []"
  using assms by (simp add: Reconcile_def getAutoScalingGroup_def attachTargetGroup_def)

theorem Reconcile_idempotent_witness:
  "Reconcile pkg0 (controller [group0] [] [att ''arn:B''] (tg_found ''arn:B'') None) asg0 =
     ([Call_DescribeAutoScalingGroups [''x-asg''],
       Call_DescribeLoadBalancerTargetGroups ''x-asg'',
       Call_getTargetGroup ''x-asg''], Ok Created)"
proof -
  let ?a = "controller [group0] [] [att ''arn:B''] (tg_found ''arn:B'') None"
  have h1: "DescribeAutoScalingGroupsWithContext (autoscalingAPI ?a) [Name asg0] = Inr [group0]"
    by (simp add: controller_def)
  have h2: "DescribeLoadBalancerTargetGroupsWithContext (autoscalingAPI ?a) (Name asg0) =
              Inr (Some \<lparr>LoadBalancerTargetGroups = [att ''arn:B'']\<rparr>)"
    by (simp add: controller_def)
  have h3: "attached (Some \<lparr>LoadBalancerTargetGroups = [att ''arn:B'']\<rparr>) = att ''arn:B'' # []"
    by (simp add: attached_def)
  have h4: "getTargetGroup (elbv2api ?a) (Name asg0) = (Some \<lparr>TargetGroupArn = Some ''arn:B''\<rparr>, None)"
    by (simp add: controller_def getTargetGroup_def tg_found_def)
  have h5: "aws_StringValue (LoadBalancerTargetGroupARN (att ''arn:B'')) =
              aws_StringValue (TargetGroupArn \<lparr>TargetGroupArn = Some ''arn:B''\<rparr>)"
    by (simp add: att_def)
  from Reconcile_idempotent[OF h1 h2 h3 h4 h5, of pkg0] show ?thesis
    by (simp add: asg0_def)
qed

text \<open>
  C2. Drift correction is two-phase. When the group exists, the first described
  attachment has ARN \<open>A\<close> and the expected target group exists with another ARN \<open>B\<close>, the
  pass sends exactly one detach, of \<open>A\<close>, and no attach. A following pass that finds the
  group, no attachment any more and the same target group sends the attach of \<open>B\<close>.
\<close>

theorem Reconcile_drift_two_phase:
  assumes "DescribeAutoScalingGroupsWithContext (autoscalingAPI a) [Name asgObj] = Inr [g]"
    and "DescribeLoadBalancerTargetGroupsWithContext (autoscalingAPI a) (Name asgObj) = Inr output"
    and "attached output = x # xs"
    and "LoadBalancerTargetGroupARN x = Some A"
    and "getTargetGroup (elbv2api a) (Name asgObj) = (Some tg, None)"
    and "TargetGroupArn tg = Some B"
    and "A \<noteq> B"
    and "DescribeAutoScalingGroupsWithContext (autoscalingAPI a') [Name asgObj] = Inr [g']"
    and "DescribeLoadBalancerTargetGroupsWithContext (autoscalingAPI a') (Name asgObj) = Inr output'"
    and "attached output' = []"
    and "getTargetGroup (elbv2api a') (Name asgObj) = (Some tg, None)"
  shows "filter is_detach (fst (Reconcile p a asgObj)) =
           [Call_DetachLoadBalancerTargetGroups (Name asgObj) [A]]
       \<and> filter is_attach (fst (Reconcile p a asgObj)) = []
       \<and> filter is_attach (fst (Reconcile p a' asgObj)) =
           [Call_AttachLoadBalancerTargetGroups (Name asgObj) [B]]"
  using assms
  by (simp add: Reconcile_def getAutoScalingGroup_def attachTargetGroup_def aws_StringValue_def)

theorem Reconcile_drift_two_phase_witness:
  "filter is_detach
     (fst (Reconcile pkg0 (controller [group0] [] [att ''arn:A''] (tg_found ''arn:B'') None) asg0)) =
     [Call_DetachLoadBalancerTargetGroups ''x-asg'' [''arn:A'']]
 \<and> filter is_attach
     (fst (Reconcile pkg0 (controller [group0] [] [att ''arn:A''] (tg_found ''arn:B'') None) asg0)) = []
 \<and> filter is_attach
     (fst (Reconcile pkg0 (controller [group0] [] [] (tg_found ''arn:B'') None) asg0)) =
     [Call_AttachLoadBalancerTargetGroups ''x-asg'' [''arn:B'']]"
proof -
  let ?a = "controller [group0] [] [att ''arn:A''] (tg_found ''arn:B'') None"
  let ?a' = "controller [group0] [] [] (tg_found ''arn:B'') None"
  let ?tg = "\<lparr>TargetGroupArn = Some ''arn:B''\<rparr>"
  have h1: "DescribeAutoScalingGroupsWithContext (autoscalingAPI ?a) [Name asg0] = Inr [group0]"
    by (simp add: controller_def)
  have h2: "DescribeLoadBalancerTargetGroupsWithContext (autoscalingAPI ?a) (Name asg0) =
              Inr (Some \<lparr>LoadBalancerTargetGroups = [att ''arn:A'']\<rparr>)"
    by (simp add: controller_def)
  have h3: "attached (Some \<lparr>LoadBalancerTargetGroups = [att ''arn:A'']\<rparr>) = att ''arn:A'' # []"
    by (simp add: attached_def)
  have h4: "LoadBalancerTargetGroupARN (att ''arn:A'') = Some ''arn:A''"
    by (simp add: att_def)
  have h5: "getTargetGroup (elbv2api ?a) (Name asg0) = (Some ?tg, None)"
    by (simp add: controller_def getTargetGroup_def tg_found_def)
  have h6: "TargetGroupArn ?tg = Some ''arn:B''"
    by simp
  have h7: "''arn:A'' \<noteq> ''arn:B''"
    by simp
  have h8: "DescribeAutoScalingGroupsWithContext (autoscalingAPI ?a') [Name asg0] = Inr [group0]"
    by (simp add: controller_def)
  have h9: "DescribeLoadBalancerTargetGroupsWithContext (autoscalingAPI ?a') (Name asg0) =
              Inr (Some \<lparr>LoadBalancerTargetGroups = []\<rparr>)"
    by (simp add: controller_def)
  have h10: "attached (Some \<lparr>LoadBalancerTargetGroups = []\<rparr>) = []"
    by (simp add: attached_def)
  have h11: "getTargetGroup (elbv2api ?a') (Name asg0) = (Some ?tg, None)"
    by (simp add: controller_def getTargetGroup_def tg_found_def)
  from Reconcile_drift_two_phase[OF h1 h2 h3 h4 h5 h6 h7 h8 h9 h10 h11, of pkg0] show ?thesis
    by (simp add: asg0_def)
qed

text \<open>
  C3, as the code has it. \<open>Reconcile\<close> returns \<open>Created\<close> at the end of every pass that meets
  no error and no nil pointer, in three situations: nothing was attached and the attach of
  the expected ARN was sent and accepted; the ARN of the first attachment equals the
  expected one and nothing was sent; the ARN of the first attachment differs from the
  expected one and the detach of that stale ARN was sent and accepted. In the third
  situation the pass sends no attach, so \<open>Created\<close> is reported while the attachment does
  not match: with the group present, a first attachment \<open>A\<close>, an expected ARN \<open>B\<close> other than
  \<open>A\<close> and an accepted detach, the pass is the three reads and the detach of \<open>A\<close>, and its
  status is \<open>Created\<close>.
\<close>

theorem Reconcile_Created_cases:
  "(snd (Reconcile p a asgObj) = Ok Created \<longrightarrow>
     (\<exists>output tg.
        DescribeLoadBalancerTargetGroupsWithContext (autoscalingAPI a) (Name asgObj) = Inr output
      \<and> fst (getTargetGroup (elbv2api a) (Name asgObj)) = Some tg
      \<and> ((attached output = []
           \<and> (\<exists>arn. TargetGroupArn tg = Some arn
                \<and> filter is_attach (fst (Reconcile p a asgObj)) =
                    [Call_AttachLoadBalancerTargetGroups (Name asgObj) [arn]]
                \<and> AttachLoadBalancerTargetGroupsWithContext (autoscalingAPI a) (Name asgObj) [arn] = None)
           \<and> filter is_detach (fst (Reconcile p a asgObj)) = [])
        \<or> (attached output \<noteq> []
           \<and> aws_StringValue (LoadBalancerTargetGroupARN (attached output ! 0)) =
               aws_StringValue (TargetGroupArn tg)
           \<and> filter is_attach (fst (Reconcile p a asgObj)) = []
           \<and> filter is_detach (fst (Reconcile p a asgObj)) = [])
        \<or> (attached output \<noteq> []
           \<and> aws_StringValue (LoadBalancerTargetGroupARN (attached output ! 0)) \<noteq>
               aws_StringValue (TargetGroupArn tg)
           \<and> (\<exists>arn. LoadBalancerTargetGroupARN (attached output ! 0) = Some arn
                \<and> filter is_detach (fst (Reconcile p a asgObj)) =
                    [Call_DetachLoadBalancerTargetGroups (Name asgObj) [arn]]
                \<and> DetachLoadBalancerTargetGroupsWithContext (autoscalingAPI a) (Name asgObj) [arn] = None)
           \<and> filter is_attach (fst (Reconcile p a asgObj)) = []))))
 \<and> (DescribeAutoScalingGroupsWithContext (autoscalingAPI a) [Name asgObj] = Inr [g]
    \<and> DescribeLoadBalancerTargetGroupsWithContext (autoscalingAPI a) (Name asgObj) = Inr out
    \<and> attached out = x # xs
    \<and> LoadBalancerTargetGroupARN x = Some A
    \<and> getTargetGroup (elbv2api a) (Name asgObj) = (Some t, None)
    \<and> TargetGroupArn t = Some B
    \<and> A \<noteq> B
    \<and> DetachLoadBalancerTargetGroupsWithContext (autoscalingAPI a) (Name asgObj) [A] = None
    \<longrightarrow> Reconcile p a asgObj =
          ([Call_DescribeAutoScalingGroups [Name asgObj],
            Call_DescribeLoadBalancerTargetGroups (Name asgObj),
            Call_getTargetGroup (Name asgObj),
            Call_DetachLoadBalancerTargetGroups (Name asgObj) [A]], Ok Created))"
proof (intro conjI impI)
  let ?tgo = "fst (getTargetGroup (elbv2api a) (Name asgObj))"
  assume ok: "snd (Reconcile p a asgObj) = Ok Created"
  with Reconcile_calls[of p a asgObj] obtain out where
    d: "DescribeLoadBalancerTargetGroupsWithContext (autoscalingAPI a) (Name asgObj) = Inr out"
    and r: "snd (attachTargetGroup a asgObj out ?tgo) = Ok Created"
    and fa: "filter is_attach (fst (Reconcile p a asgObj)) =
               filter is_attach (fst (attachTargetGroup a asgObj out ?tgo))"
    and fd: "filter is_detach (fst (Reconcile p a asgObj)) =
               filter is_detach (fst (attachTargetGroup a asgObj out ?tgo))"
    by auto
  from attachTargetGroup_Created[OF r] obtain tg where tg: "?tgo = Some tg"
    and "(attached out = []
           \<and> (\<exists>arn. TargetGroupArn tg = Some arn
                \<and> fst (attachTargetGroup a asgObj out ?tgo) =
                    [Call_AttachLoadBalancerTargetGroups (Name asgObj) [arn]]
                \<and> AttachLoadBalancerTargetGroupsWithContext (autoscalingAPI a) (Name asgObj) [arn] = None))
        \<or> (attached out \<noteq> []
           \<and> aws_StringValue (LoadBalancerTargetGroupARN (attached out ! 0)) =
               aws_StringValue (TargetGroupArn tg)
           \<and> fst (attachTargetGroup a asgObj out ?tgo) = [])
        \<or> (attached out \<noteq> []
           \<and> aws_StringValue (LoadBalancerTargetGroupARN (attached out ! 0)) \<noteq>
               aws_StringValue (TargetGroupArn tg)
           \<and> (\<exists>arn. LoadBalancerTargetGroupARN (attached out ! 0) = Some arn
                \<and> fst (attachTargetGroup a asgObj out ?tgo) =
                    [Call_DetachLoadBalancerTargetGroups (Name asgObj) [arn]]
                \<and> DetachLoadBalancerTargetGroupsWithContext (autoscalingAPI a) (Name asgObj) [arn] = None))"
    by blast
  then consider
    (attach) arn where "attached out = []" "TargetGroupArn tg = Some arn"
      "fst (attachTargetGroup a asgObj out ?tgo) =
         [Call_AttachLoadBalancerTargetGroups (Name asgObj) [arn]]"
      "AttachLoadBalancerTargetGroupsWithContext (autoscalingAPI a) (Name asgObj) [arn] = None"
  | (same) "attached out \<noteq> []"
      "aws_StringValue (LoadBalancerTargetGroupARN (attached out ! 0)) = aws_StringValue (TargetGroupArn tg)"
      "fst (attachTargetGroup a asgObj out ?tgo) = []"
  | (detach) arn where "attached out \<noteq> []"
      "aws_StringValue (LoadBalancerTargetGroupARN (attached out ! 0)) \<noteq> aws_StringValue (TargetGroupArn tg)"
      "LoadBalancerTargetGroupARN (attached out ! 0) = Some arn"
      "fst (attachTargetGroup a asgObj out ?tgo) =
         [Call_DetachLoadBalancerTargetGroups (Name asgObj) [arn]]"
      "DetachLoadBalancerTargetGroupsWithContext (autoscalingAPI a) (Name asgObj) [arn] = None"
    by blast
  then show "\<exists>output tg.
        DescribeLoadBalancerTargetGroupsWithContext (autoscalingAPI a) (Name asgObj) = Inr output
      \<and> fst (getTargetGroup (elbv2api a) (Name asgObj)) = Some tg
      \<and> ((attached output = []
           \<and> (\<exists>arn. TargetGroupArn tg = Some arn
                \<and> filter is_attach (fst (Reconcile p a asgObj)) =
                    [Call_AttachLoadBalancerTargetGroups (Name asgObj) [arn]]
                \<and> AttachLoadBalancerTargetGroupsWithContext (autoscalingAPI a) (Name asgObj) [arn] = None)
           \<and> filter is_detach (fst (Reconcile p a asgObj)) = [])
        \<or> (attached output \<noteq> []
           \<and> aws_StringValue (LoadBalancerTargetGroupARN (attached output ! 0)) =
               aws_StringValue (TargetGroupArn tg)
           \<and> filter is_attach (fst (Reconcile p a asgObj)) = []
           \<and> filter is_detach (fst (Reconcile p a asgObj)) = [])
        \<or> (attached output \<noteq> []
           \<and> aws_StringValue (LoadBalancerTargetGroupARN (attached output ! 0)) \<noteq>
               aws_StringValue (TargetGroupArn tg)
           \<and> (\<exists>arn. LoadBalancerTargetGroupARN (attached output ! 0) = Some arn
                \<and> filter is_detach (fst (Reconcile p a asgObj)) =
                    [Call_DetachLoadBalancerTargetGroups (Name asgObj) [arn]]
                \<and> DetachLoadBalancerTargetGroupsWithContext (autoscalingAPI a) (Name asgObj) [arn] = None)
           \<and> filter is_attach (fst (Reconcile p a asgObj)) = []))"
  proof cases
    case attach
    with d tg fa fd show ?thesis by (intro exI[of _ out] exI[of _ tg]) simp
  next
    case same
    with d tg fa fd show ?thesis by (intro exI[of _ out] exI[of _ tg]) simp
  next
    case detach
    with d tg fa fd show ?thesis by (intro exI[of _ out] exI[of _ tg]) simp
  qed
next
  assume "DescribeAutoScalingGroupsWithContext (autoscalingAPI a) [Name asgObj] = Inr [g]
    \<and> DescribeLoadBalancerTargetGroupsWithContext (autoscalingAPI a) (Name asgObj) = Inr out
    \<and> attached out = x # xs
    \<and> LoadBalancerTargetGroupARN x = Some A
    \<and> getTargetGroup (elbv2api a) (Name asgObj) = (Some t, None)
    \<and> TargetGroupArn t = Some B
    \<and> A \<noteq> B
    \<and> DetachLoadBalancerTargetGroupsWithContext (autoscalingAPI a) (Name asgObj) [A] = None"
  then show "Reconcile p a asgObj =
          ([Call_DescribeAutoScalingGroups [Name asgObj],
            Call_DescribeLoadBalancerTargetGroups (Name asgObj),
            Call_getTargetGroup (Name asgObj),
            Call_DetachLoadBalancerTargetGroups (Name asgObj) [A]], Ok Created)"
    by (simp add: Reconcile_def getAutoScalingGroup_def attachTargetGroup_def aws_StringValue_def)
qed

theorem Reconcile_Created_cases_witness:
  "snd (Reconcile pkg0 (controller [group0] [] [] (tg_found ''arn:B'') None) asg0) = Ok Created
 \<and> filter is_attach (fst (Reconcile pkg0 (controller [group0] [] [] (tg_found ''arn:B'') None) asg0)) =
     [Call_AttachLoadBalancerTargetGroups ''x-asg'' [''arn:B'']]
 \<and> Reconcile pkg0 (controller [group0] [] [att ''arn:A'', att ''arn:C''] (tg_found ''arn:B'') None) asg0 =
     ([Call_DescribeAutoScalingGroups [''x-asg''],
       Call_DescribeLoadBalancerTargetGroups ''x-asg'',
       Call_getTargetGroup ''x-asg'',
       Call_DetachLoadBalancerTargetGroups ''x-asg'' [''arn:A'']], Ok Created)"
proof -
  let ?a = "controller [group0] [] [] (tg_found ''arn:B'') None"
  let ?b = "controller [group0] [] [att ''arn:A'', att ''arn:C''] (tg_found ''arn:B'') None"
  have ok: "snd (Reconcile pkg0 ?a asg0) = Ok Created"
    by (simp add: pass_defs input_defs)
  have "\<exists>output tg.
        DescribeLoadBalancerTargetGroupsWithContext (autoscalingAPI ?a) (Name asg0) = Inr output
      \<and> fst (getTargetGroup (elbv2api ?a) (Name asg0)) = Some tg
      \<and> ((attached output = []
           \<and> (\<exists>arn. TargetGroupArn tg = Some arn
                \<and> filter is_attach (fst (Reconcile pkg0 ?a asg0)) =
                    [Call_AttachLoadBalancerTargetGroups (Name asg0) [arn]]
                \<and> AttachLoadBalancerTargetGroupsWithContext (autoscalingAPI ?a) (Name asg0) [arn] = None)
           \<and> filter is_detach (fst (Reconcile pkg0 ?a asg0)) = [])
        \<or> (attached output \<noteq> []
           \<and> aws_StringValue (LoadBalancerTargetGroupARN (attached output ! 0)) =
               aws_StringValue (TargetGroupArn tg)
           \<and> filter is_attach (fst (Reconcile pkg0 ?a asg0)) = []
           \<and> filter is_detach (fst (Reconcile pkg0 ?a asg0)) = [])
        \<or> (attached output \<noteq> []
           \<and> aws_StringValue (LoadBalancerTargetGroupARN (attached output ! 0)) \<noteq>
               aws_StringValue (TargetGroupArn tg)
           \<and> (\<exists>arn. LoadBalancerTargetGroupARN (attached output ! 0) = Some arn
                \<and> filter is_detach (fst (Reconcile pkg0 ?a asg0)) =
                    [Call_DetachLoadBalancerTargetGroups (Name asg0) [arn]]
                \<and> DetachLoadBalancerTargetGroupsWithContext (autoscalingAPI ?a) (Name asg0) [arn] = None)
           \<and> filter is_attach (fst (Reconcile pkg0 ?a asg0)) = []))"
    using Reconcile_Created_cases[where p = pkg0 and a = ?a and asgObj = asg0] ok by blast
  then have att: "filter is_attach (fst (Reconcile pkg0 ?a asg0)) =
                    [Call_AttachLoadBalancerTargetGroups ''x-asg'' [''arn:B'']]"
    by (auto simp add: controller_def getTargetGroup_def tg_found_def attached_def asg0_def)
  have h: "DescribeAutoScalingGroupsWithContext (autoscalingAPI ?b) [Name asg0] = Inr [group0]
    \<and> DescribeLoadBalancerTargetGroupsWithContext (autoscalingAPI ?b) (Name asg0) =
        Inr (Some \<lparr>LoadBalancerTargetGroups = [att ''arn:A'', att ''arn:C'']\<rparr>)
    \<and> attached (Some \<lparr>LoadBalancerTargetGroups = [att ''arn:A'', att ''arn:C'']\<rparr>) =
        att ''arn:A'' # [att ''arn:C'']
    \<and> LoadBalancerTargetGroupARN (att ''arn:A'') = Some ''arn:A''
    \<and> getTargetGroup (elbv2api ?b) (Name asg0) = (Some \<lparr>TargetGroupArn = Some ''arn:B''\<rparr>, None)
    \<and> TargetGroupArn \<lparr>TargetGroupArn = Some ''arn:B''\<rparr> = Some ''arn:B''
    \<and> ''arn:A'' \<noteq> ''arn:B''
    \<and> DetachLoadBalancerTargetGroupsWithContext (autoscalingAPI ?b) (Name asg0) [''arn:A''] = None"
    by (simp add: controller_def getTargetGroup_def tg_found_def attached_def att_def)
  have "Reconcile pkg0 ?b asg0 =
          ([Call_DescribeAutoScalingGroups [Name asg0],
            Call_DescribeLoadBalancerTargetGroups (Name asg0),
            Call_getTargetGroup (Name asg0),
            Call_DetachLoadBalancerTargetGroups (Name asg0) [''arn:A'']], Ok Created)"
    using Reconcile_Created_cases[where p = pkg0 and a = ?b and asgObj = asg0 and g = group0
        and out = "Some \<lparr>LoadBalancerTargetGroups = [att ''arn:A'', att ''arn:C'']\<rparr>"
        and x = "att ''arn:A''" and xs = "[att ''arn:C'']" and A = "''arn:A''"
        and t = "\<lparr>TargetGroupArn = Some ''arn:B''\<rparr>" and B = "''arn:B''"] h
    by blast
  with ok att show ?thesis by (simp add: asg0_def)
qed

text \<open>
  C3, as the claim words it, fails: the pass below only detaches the stale ARN \<open>arn:A\<close>
  (the expected one is \<open>arn:B\<close>, no attach is sent) and reports \<open>Created\<close>.
\<close>

theorem Reconcile_Created_after_detach_counterexample:
  "Reconcile pkg0 (controller [group0] [] [att ''arn:A''] (tg_found ''arn:B'') None) asg0 =
     ([Call_DescribeAutoScalingGroups [''x-asg''],
       Call_DescribeLoadBalancerTargetGroups ''x-asg'',
       Call_getTargetGroup ''x-asg'',
       Call_DetachLoadBalancerTargetGroups ''x-asg'' [''arn:A'']], Ok Created)"
  by (simp add: pass_defs input_defs)

text \<open>
  C4. Dependency wait on subnets. When the describe of groups answers no group and the
  private subnets of the owning cluster are resolved: with an empty subnet list the pass
  returns the error that wraps the \<open>WaitingForSubResources\<close> sentinel, which \<open>errors_Is\<close>
  recognises, and sends no create; with a non-empty list it sends exactly one create, with
  the object's name, its instance count, the bounds 1 and 4, the launch template of the
  same name, the subnets joined by commas and the generated tags.
\<close>

theorem Reconcile_waits_for_subnets:
  assumes "DescribeAutoScalingGroupsWithContext (autoscalingAPI a) [Name asgObj] = Inr []"
    and "getPrivateSubnetIDs (ec2api a) (ClusterName (Spec asgObj)) = Inr privateSubnets"
  shows "(privateSubnets = [] \<longrightarrow>
            snd (Reconcile p a asgObj) =
              Err (Errorf ''waiting for private subnets, '' WaitingForSubResources)
            \<and> errors_Is (Errorf ''waiting for private subnets, '' WaitingForSubResources)
                 WaitingForSubResources
            \<and> filter is_create (fst (Reconcile p a asgObj)) = [])
       \<and> (privateSubnets \<noteq> [] \<longrightarrow>
            filter is_create (fst (Reconcile p a asgObj)) =
              [Call_CreateAutoScalingGroup
                 \<lparr>Create_AutoScalingGroupName = Name asgObj,
                  DesiredCapacity = word_of_int (InstanceCount (Spec asgObj)),
                  MaxSize = 4, MinSize = 1,
                  LaunchTemplateName = Name asgObj,
                  VPCZoneIdentifier = strings_Join privateSubnets '','',
                  Tags = generateAutoScalingTags p (Name asgObj) (ClusterName (Spec asgObj))\<rparr>])"
  using assms
  by (auto simp add: Reconcile_def getAutoScalingGroup_def createAutoScalingGroup_def
      attachTargetGroup_def Let_def split: option.splits sum.splits prod.splits if_splits)

theorem Reconcile_waits_for_subnets_witness:
  "snd (Reconcile pkg0 (controller [] [] [] (tg_found ''arn:B'') None) asg0) =
     Err (Errorf ''waiting for private subnets, '' WaitingForSubResources)
 \<and> filter is_create (fst (Reconcile pkg0 (controller [] [] [] (tg_found ''arn:B'') None) asg0)) = []
 \<and> filter is_create
     (fst (Reconcile pkg0 (controller [] [''sn-1'', ''sn-2''] [] (tg_found ''arn:B'') None) asg0)) =
     [Call_CreateAutoScalingGroup
        \<lparr>Create_AutoScalingGroupName = ''x-asg'', DesiredCapacity = 2, MaxSize = 4, MinSize = 1,
         LaunchTemplateName = ''x-asg'', VPCZoneIdentifier = ''sn-1,sn-2'',
         Tags = [(''cluster'', ''x'')]\<rparr>]"
proof -
  let ?a = "controller [] [] [] (tg_found ''arn:B'') None"
  let ?b = "controller [] [''sn-1'', ''sn-2''] [] (tg_found ''arn:B'') None"
  have a1: "DescribeAutoScalingGroupsWithContext (autoscalingAPI ?a) [Name asg0] = Inr []"
    by (simp add: controller_def)
  have a2: "getPrivateSubnetIDs (ec2api ?a) (ClusterName (Spec asg0)) = Inr []"
    by (simp add: controller_def getPrivateSubnetIDs_def)
  have b1: "DescribeAutoScalingGroupsWithContext (autoscalingAPI ?b) [Name asg0] = Inr []"
    by (simp add: controller_def)
  have b2: "getPrivateSubnetIDs (ec2api ?b) (ClusterName (Spec asg0)) = Inr [''sn-1'', ''sn-2'']"
    by (simp add: controller_def getPrivateSubnetIDs_def)
  from Reconcile_waits_for_subnets[OF a1 a2, of pkg0] Reconcile_waits_for_subnets[OF b1 b2, of pkg0]
  show ?thesis
    by (simp add: asg0_def pkg0_def)
qed

text \<open>
  C5. Dependency wait on the target group. When the target group lookup answers an error
  that \<open>IsTargetGroupNotExists\<close> accepts, the pass sends no attach and no detach and ends
  with an error; and a pass that performs the lookup returns the error that wraps the
  \<open>WaitingForSubResources\<close> sentinel, which \<open>errors_Is\<close> recognises by kind.
\<close>

theorem Reconcile_waits_for_target_group:
  assumes "getTargetGroup (elbv2api a) (Name asgObj) = (tg, Some e)"
    and "IsTargetGroupNotExists p e"
  shows "filter is_attach (fst (Reconcile p a asgObj)) = []
       \<and> filter is_detach (fst (Reconcile p a asgObj)) = []
       \<and> (\<exists>err. snd (Reconcile p a asgObj) = Err err)
       \<and> (Call_getTargetGroup (Name asgObj) \<in> set (fst (Reconcile p a asgObj)) \<longrightarrow>
            snd (Reconcile p a asgObj) =
              Err (Errorf ''waiting for target group, '' WaitingForSubResources)
            \<and> errors_Is (Errorf ''waiting for target group, '' WaitingForSubResources)
                 WaitingForSubResources)"
  using assms
  by (auto simp add: Reconcile_def getAutoScalingGroup_def createAutoScalingGroup_def
      Let_def split: option.splits sum.splits prod.splits if_splits)

theorem Reconcile_waits_for_target_group_witness:
  "Call_getTargetGroup ''x-asg'' \<in> set (fst (Reconcile pkg0
      (controller [group0] [] [] (None, Some (ProviderError ''TargetGroupNotFound'')) None) asg0))
 \<and> filter is_attach (fst (Reconcile pkg0
      (controller [group0] [] [] (None, Some (ProviderError ''TargetGroupNotFound'')) None) asg0)) = []
 \<and> snd (Reconcile pkg0
      (controller [group0] [] [] (None, Some (ProviderError ''TargetGroupNotFound'')) None) asg0) =
     Err (Errorf ''waiting for target group, '' WaitingForSubResources)"
proof -
  let ?a = "controller [group0] [] [] (None, Some (ProviderError ''TargetGroupNotFound'')) None"
  have h1: "getTargetGroup (elbv2api ?a) (Name asg0) = (None, Some (ProviderError ''TargetGroupNotFound''))"
    by (simp add: controller_def getTargetGroup_def)
  have h2: "IsTargetGroupNotExists pkg0 (ProviderError ''TargetGroupNotFound'')"
    by (simp add: pkg0_def)
  have h3: "Call_getTargetGroup (Name asg0) \<in> set (fst (Reconcile pkg0 ?a asg0))"
    by (simp add: pass_defs input_defs)
  from Reconcile_waits_for_target_group[OF h1 h2] h3 show ?thesis
    by (simp add: asg0_def)
qed

text \<open>
  C6. A lookup error other than "target group does not exist" is not returned. The group
  exists and the lookup answers a nil target group with a throttling error: the pass goes
  on past the lookup and dereferences the nil target group, both when nothing is attached
  and when a target group is attached. No error reaches the caller.
\<close>

theorem Reconcile_lookup_error_panics:
  "Reconcile pkg0 (controller [group0] [] [] (None, Some (ProviderError ''Throttling'')) None) asg0 =
     ([Call_DescribeAutoScalingGroups [''x-asg''],
       Call_DescribeLoadBalancerTargetGroups ''x-asg'',
       Call_getTargetGroup ''x-asg''], Panic)
 \<and> Reconcile pkg0
       (controller [group0] [] [att ''arn:A''] (None, Some (ProviderError ''Throttling'')) None) asg0 =
     ([Call_DescribeAutoScalingGroups [''x-asg''],
       Call_DescribeLoadBalancerTargetGroups ''x-asg'',
       Call_getTargetGroup ''x-asg''], Panic)"
  by (simp add: pass_defs input_defs)

text \<open>
  C10. Only the first attached target group is considered. When the described
  attachments are \<open>x # xs\<close>, a pass against a provider that differs only in the
  attachments after the first (\<open>x # ys\<close>) sends the same requests and returns the same
  result; and the pass sends either no detach or exactly one, of the ARN of \<open>x\<close>.
\<close>

theorem Reconcile_first_attachment_only:
  assumes "DescribeLoadBalancerTargetGroupsWithContext (autoscalingAPI a) (Name asgObj) = Inr output"
    and "attached output = x # xs"
    and "ec2api a' = ec2api a" and "elbv2api a' = elbv2api a"
    and "autoscalingAPI a' =
           (autoscalingAPI a)\<lparr>DescribeLoadBalancerTargetGroupsWithContext := f\<rparr>"
    and "f (Name asgObj) = Inr output'"
    and "attached output' = x # ys"
  shows "Reconcile p a' asgObj = Reconcile p a asgObj
       \<and> (filter is_detach (fst (Reconcile p a asgObj)) = []
          \<or> (\<exists>arn. LoadBalancerTargetGroupARN x = Some arn
               \<and> filter is_detach (fst (Reconcile p a asgObj)) =
                   [Call_DetachLoadBalancerTargetGroups (Name asgObj) [arn]]))"
proof
  have att: "attachTargetGroup a' asgObj output' tgo = attachTargetGroup a asgObj output tgo" for tgo
    using assms by (auto simp add: attachTargetGroup_def split: option.splits)
  have g: "getAutoScalingGroup a' (Name asgObj) = getAutoScalingGroup a (Name asgObj)"
    using assms by (simp add: getAutoScalingGroup_def)
  have c: "createAutoScalingGroup p a' asgObj = createAutoScalingGroup p a asgObj"
    using assms by (auto simp add: createAutoScalingGroup_def Let_def split: sum.splits)
  have d': "DescribeLoadBalancerTargetGroupsWithContext (autoscalingAPI a') (Name asgObj) = Inr output'"
    using assms by simp
  show "Reconcile p a' asgObj = Reconcile p a asgObj"
    unfolding Reconcile_def g c d' assms(1) assms(4) att sum.case ..
next
  let ?tgo = "fst (getTargetGroup (elbv2api a) (Name asgObj))"
  from Reconcile_calls[of p a asgObj] assms(1) consider
    (early) "filter is_detach (fst (Reconcile p a asgObj)) = []"
  | (last) "filter is_detach (fst (Reconcile p a asgObj)) =
              filter is_detach (fst (attachTargetGroup a asgObj output ?tgo))"
    by auto
  then show "filter is_detach (fst (Reconcile p a asgObj)) = []
          \<or> (\<exists>arn. LoadBalancerTargetGroupARN x = Some arn
               \<and> filter is_detach (fst (Reconcile p a asgObj)) =
                   [Call_DetachLoadBalancerTargetGroups (Name asgObj) [arn]])"
  proof cases
    case early
    then show ?thesis by simp
  next
    case last
    with attachTargetGroup_detach_first[OF assms(2), of a asgObj ?tgo] show ?thesis
      by simp
  qed
qed

theorem Reconcile_first_attachment_only_witness:
  "Reconcile pkg0 (controller [group0] [] [att ''arn:A'', att ''arn:C''] (tg_found ''arn:B'') None) asg0 =
   Reconcile pkg0 (controller [group0] [] [att ''arn:A''] (tg_found ''arn:B'') None) asg0
 \<and> filter is_detach
     (fst (Reconcile pkg0 (controller [group0] [] [att ''arn:A''] (tg_found ''arn:B'') None) asg0)) =
     [Call_DetachLoadBalancerTargetGroups ''x-asg'' [''arn:A'']]"
proof -
  let ?a = "controller [group0] [] [att ''arn:A''] (tg_found ''arn:B'') None"
  let ?a' = "controller [group0] [] [att ''arn:A'', att ''arn:C''] (tg_found ''arn:B'') None"
  let ?f = "\<lambda>n::string. Inr (Some \<lparr>LoadBalancerTargetGroups = [att ''arn:A'', att ''arn:C'']\<rparr>)
              :: error + DescribeLoadBalancerTargetGroupsOutput option"
  have h1: "DescribeLoadBalancerTargetGroupsWithContext (autoscalingAPI ?a) (Name asg0) =
              Inr (Some \<lparr>LoadBalancerTargetGroups = [att ''arn:A'']\<rparr>)"
    by (simp add: controller_def)
  have h2: "attached (Some \<lparr>LoadBalancerTargetGroups = [att ''arn:A'']\<rparr>) = att ''arn:A'' # []"
    by (simp add: attached_def)
  have h3: "ec2api ?a' = ec2api ?a"
    by (simp add: controller_def)
  have h4: "elbv2api ?a' = elbv2api ?a"
    by (simp add: controller_def)
  have h5: "autoscalingAPI ?a' =
              (autoscalingAPI ?a)\<lparr>DescribeLoadBalancerTargetGroupsWithContext := ?f\<rparr>"
    by (simp add: controller_def)
  have h6: "?f (Name asg0) = Inr (Some \<lparr>LoadBalancerTargetGroups = [att ''arn:A'', att ''arn:C'']\<rparr>)"
    by simp
  have h7: "attached (Some \<lparr>LoadBalancerTargetGroups = [att ''arn:A'', att ''arn:C'']\<rparr>) =
              att ''arn:A'' # [att ''arn:C'']"
    by (simp add: attached_def)
  have d: "filter is_detach (fst (Reconcile pkg0 ?a asg0)) =
             [Call_DetachLoadBalancerTargetGroups ''x-asg'' [''arn:A'']]"
    by (simp add: pass_defs input_defs)
  from Reconcile_first_attachment_only[OF h1 h2 h3 h4 h5 h6 h7, of pkg0] d show ?thesis
    by simp
qed

section \<open>Finalize\<close>

text \<open>
  C7, as the code has it. When no group of that name is described, \<open>Finalize\<close> returns
  \<open>Terminated\<close> and sends no delete. When the group is described with the status
  "Delete in progress", it sends no delete either. When the group is described with any
  other status, it sends exactly one delete, with \<open>ForceDelete\<close> set, and returns
  \<open>Terminated\<close> if the provider accepts that delete; if the delete fails, the error of the
  delete is returned. A pass sends at most one delete, so two successive calls send at
  most one delete in all whenever the second call finds the group absent or with the
  status "Delete in progress".
\<close>

theorem Finalize_delete_calls:
  "(DescribeAutoScalingGroupsWithContext (autoscalingAPI a) [Name asgObj] = Inr [] \<longrightarrow>
      Finalize a asgObj = ([Call_DescribeAutoScalingGroups [Name asgObj]], Ok Terminated))
 \<and> (DescribeAutoScalingGroupsWithContext (autoscalingAPI a) [Name asgObj] = Inr [g]
      \<and> Status g = Some ''Delete in progress'' \<longrightarrow>
      Finalize a asgObj = ([Call_DescribeAutoScalingGroups [Name asgObj]], Ok Terminated))
 \<and> (DescribeAutoScalingGroupsWithContext (autoscalingAPI a) [Name asgObj] = Inr [g]
      \<and> aws_StringValue (Status g) \<noteq> ''Delete in progress'' \<longrightarrow>
      fst (Finalize a asgObj) =
        [Call_DescribeAutoScalingGroups [Name asgObj],
         Call_DeleteAutoScalingGroup (AutoScalingGroupName g) True]
      \<and> snd (Finalize a asgObj) =
        (case DeleteAutoScalingGroupWithContext (autoscalingAPI a) (AutoScalingGroupName g) True of
           None \<Rightarrow> Ok Terminated | Some err \<Rightarrow> Err err))
 \<and> (DescribeAutoScalingGroupsWithContext (autoscalingAPI a') [Name asgObj] = Inr []
      \<or> (DescribeAutoScalingGroupsWithContext (autoscalingAPI a') [Name asgObj] = Inr [g']
          \<and> Status g' = Some ''Delete in progress'') \<longrightarrow>
      length (filter is_delete (fst (Finalize a asgObj) @ fst (Finalize a' asgObj))) \<le> 1)"
proof (intro conjI impI)
  assume "DescribeAutoScalingGroupsWithContext (autoscalingAPI a) [Name asgObj] = Inr []"
  then show "Finalize a asgObj = ([Call_DescribeAutoScalingGroups [Name asgObj]], Ok Terminated)"
    by (simp add: Finalize_def getAutoScalingGroup_def)
next
  assume "DescribeAutoScalingGroupsWithContext (autoscalingAPI a) [Name asgObj] = Inr [g]
      \<and> Status g = Some ''Delete in progress''"
  then show "Finalize a asgObj = ([Call_DescribeAutoScalingGroups [Name asgObj]], Ok Terminated)"
    by (simp add: Finalize_def getAutoScalingGroup_def aws_StringValue_def)
next
  assume h: "DescribeAutoScalingGroupsWithContext (autoscalingAPI a) [Name asgObj] = Inr [g]
      \<and> aws_StringValue (Status g) \<noteq> ''Delete in progress''"
  then show "fst (Finalize a asgObj) =
        [Call_DescribeAutoScalingGroups [Name asgObj],
         Call_DeleteAutoScalingGroup (AutoScalingGroupName g) True]"
    by (simp add: Finalize_def getAutoScalingGroup_def)
  from h show "snd (Finalize a asgObj) =
        (case DeleteAutoScalingGroupWithContext (autoscalingAPI a) (AutoScalingGroupName g) True of
           None \<Rightarrow> Ok Terminated | Some err \<Rightarrow> Err err)"
    by (simp add: Finalize_def getAutoScalingGroup_def split: option.splits)
next
  assume "DescribeAutoScalingGroupsWithContext (autoscalingAPI a') [Name asgObj] = Inr []
      \<or> (DescribeAutoScalingGroupsWithContext (autoscalingAPI a') [Name asgObj] = Inr [g']
          \<and> Status g' = Some ''Delete in progress'')"
  then have "filter is_delete (fst (Finalize a' asgObj)) = []"
    by (auto simp add: Finalize_def getAutoScalingGroup_def aws_StringValue_def)
  with Finalize_calls_le[of a asgObj]
  show "length (filter is_delete (fst (Finalize a asgObj) @ fst (Finalize a' asgObj))) \<le> 1"
    by simp
qed

theorem Finalize_delete_calls_witness:
  "Finalize (controller [] [] [] (tg_found ''arn:B'') None) asg0 =
     ([Call_DescribeAutoScalingGroups [''x-asg'']], Ok Terminated)
 \<and> Finalize (controller [group_deleting] [] [] (tg_found ''arn:B'') None) asg0 =
     ([Call_DescribeAutoScalingGroups [''x-asg'']], Ok Terminated)
 \<and> Finalize (controller [group0] [] [] (tg_found ''arn:B'') None) asg0 =
     ([Call_DescribeAutoScalingGroups [''x-asg''], Call_DeleteAutoScalingGroup ''x-asg'' True],
      Ok Terminated)
 \<and> length (filter is_delete
     (fst (Finalize (controller [group0] [] [] (tg_found ''arn:B'') None) asg0) @
      fst (Finalize (controller [group_deleting] [] [] (tg_found ''arn:B'') None) asg0))) \<le> 1"
proof -
  let ?none = "controller [] [] [] (tg_found ''arn:B'') None"
  let ?deleting = "controller [group_deleting] [] [] (tg_found ''arn:B'') None"
  let ?live = "controller [group0] [] [] (tg_found ''arn:B'') None"
  have h1: "DescribeAutoScalingGroupsWithContext (autoscalingAPI ?none) [Name asg0] = Inr []"
    by (simp add: controller_def)
  have h2: "DescribeAutoScalingGroupsWithContext (autoscalingAPI ?deleting) [Name asg0] = Inr [group_deleting]
      \<and> Status group_deleting = Some ''Delete in progress''"
    by (simp add: controller_def group_deleting_def)
  have h3: "DescribeAutoScalingGroupsWithContext (autoscalingAPI ?live) [Name asg0] = Inr [group0]
      \<and> aws_StringValue (Status group0) \<noteq> ''Delete in progress''"
    by (simp add: controller_def group0_def aws_StringValue_def)
  have d: "DeleteAutoScalingGroupWithContext (autoscalingAPI ?live) (AutoScalingGroupName group0) True = None"
    by (simp add: controller_def)
  note t1 = Finalize_delete_calls[where a = ?none and asgObj = asg0]
  note t2 = Finalize_delete_calls[where a = ?deleting and asgObj = asg0 and g = group_deleting]
  note t3 = Finalize_delete_calls[where a = ?live and asgObj = asg0 and g = group0
      and a' = ?deleting and g' = group_deleting]
  have c1: "Finalize ?none asg0 = ([Call_DescribeAutoScalingGroups [Name asg0]], Ok Terminated)"
    using t1 h1 by blast
  have c2: "Finalize ?deleting asg0 = ([Call_DescribeAutoScalingGroups [Name asg0]], Ok Terminated)"
    using t2 h2 by blast
  have c3: "fst (Finalize ?live asg0) =
        [Call_DescribeAutoScalingGroups [Name asg0],
         Call_DeleteAutoScalingGroup (AutoScalingGroupName group0) True]
      \<and> snd (Finalize ?live asg0) =
        (case DeleteAutoScalingGroupWithContext (autoscalingAPI ?live) (AutoScalingGroupName group0) True of
           None \<Rightarrow> Ok Terminated | Some err \<Rightarrow> Err err)"
    using t3 h3 by blast
  have c4: "length (filter is_delete (fst (Finalize ?live asg0) @ fst (Finalize ?deleting asg0))) \<le> 1"
    using t3 h2 by blast
  from c3 d have c3': "Finalize ?live asg0 =
      ([Call_DescribeAutoScalingGroups [Name asg0],
        Call_DeleteAutoScalingGroup (AutoScalingGroupName group0) True], Ok Terminated)"
    by (simp add: prod_eq_iff)
  from c1 c2 c3' c4 show ?thesis
    by (simp add: asg0_def group0_def)
qed

text \<open>
  C7, as the claim words it, fails where the provider rejects the delete: the group exists
  with no status, one delete with \<open>ForceDelete\<close> is sent, and \<open>Finalize\<close> returns the
  provider's error, not success.
\<close>

theorem Finalize_delete_error_counterexample:
  "Finalize (controller [group0] [] [] (tg_found ''arn:B'') (Some (ProviderError ''Throttling''))) asg0 =
     ([Call_DescribeAutoScalingGroups [''x-asg''], Call_DeleteAutoScalingGroup ''x-asg'' True],
      Err (ProviderError ''Throttling''))"
  by (simp add: Finalize_def getAutoScalingGroup_def aws_StringValue_def input_defs)

text \<open>
  C8, as the code has it. \<open>Finalize\<close> returns \<open>Terminated\<close> exactly when the describe of
  groups answers no group, or answers one group that either has the status
  "Delete in progress" or whose force-delete, sent in this pass, the provider accepts.
  So \<open>Terminated\<close> is also reported while the group still exists.
\<close>

theorem Finalize_Terminated_iff:
  "snd (Finalize a asgObj) = Ok Terminated \<longleftrightarrow>
     (DescribeAutoScalingGroupsWithContext (autoscalingAPI a) [Name asgObj] = Inr []
      \<or> (\<exists>g. DescribeAutoScalingGroupsWithContext (autoscalingAPI a) [Name asgObj] = Inr [g]
            \<and> (aws_StringValue (Status g) = ''Delete in progress''
               \<or> DeleteAutoScalingGroupWithContext (autoscalingAPI a) (AutoScalingGroupName g) True = None)))"
proof (cases "DescribeAutoScalingGroupsWithContext (autoscalingAPI a) [Name asgObj]")
  case (Inl e)
  then show ?thesis by (simp add: Finalize_def getAutoScalingGroup_def)
next
  case (Inr groups)
  show ?thesis
  proof (cases groups)
    case Nil
    with Inr show ?thesis by (simp add: Finalize_def getAutoScalingGroup_def)
  next
    case (Cons g gs)
    with Inr show ?thesis
      by (cases gs) (auto simp add: Finalize_def getAutoScalingGroup_def split: option.splits)
  qed
qed

theorem Finalize_Terminated_iff_witness:
  "snd (Finalize (controller [] [] [] (tg_found ''arn:B'') None) asg0) = Ok Terminated
 \<and> snd (Finalize (controller [group0, group0] [] [] (tg_found ''arn:B'') None) asg0) \<noteq> Ok Terminated"
  using Finalize_Terminated_iff[of "controller [] [] [] (tg_found ''arn:B'') None" asg0]
    Finalize_Terminated_iff[of "controller [group0, group0] [] [] (tg_found ''arn:B'') None" asg0]
  by (simp add: controller_def)

text \<open>
  C8, as the claim words it, fails: in both passes below the group is described, so it
  exists at the time of the pass (its deletion is in progress in the first, and is only
  just requested in the second), and \<open>Finalize\<close> reports \<open>Terminated\<close>.
\<close>

theorem Finalize_Terminated_while_group_exists_counterexample:
  "Finalize (controller [group_deleting] [] [] (tg_found ''arn:B'') None) asg0 =
     ([Call_DescribeAutoScalingGroups [''x-asg'']], Ok Terminated)
 \<and> Finalize (controller [group0] [] [] (tg_found ''arn:B'') None) asg0 =
     ([Call_DescribeAutoScalingGroups [''x-asg''], Call_DeleteAutoScalingGroup ''x-asg'' True],
      Ok Terminated)"
  by (simp add: Finalize_def getAutoScalingGroup_def aws_StringValue_def input_defs)

section \<open>NatGateway.Create\<close>

text \<open>
  C9, as the code has it. When the \<open>Get\<close> of the child by the control plane's namespace
  and name fails with a not-found error, \<open>Create\<close> sends exactly one create of the child,
  with the zero-value spec, and returns nil if that create succeeds; if the create fails
  it returns the create's error, wrapped. When the \<open>Get\<close> succeeds it returns nil and
  sends no create. When the \<open>Get\<close> fails with any other error it returns that error
  wrapped and sends no create.
\<close>

theorem NatGateway_Create_cases:
  "(Get n (ControlPlane_Namespace cp, ControlPlane_Name cp) = Some e \<and> IsNotFound r e \<longrightarrow>
      fst (NatGateway_Create r n cp) =
        [Call_Get (ControlPlane_Namespace cp, ControlPlane_Name cp),
         Call_Create \<lparr>NatGateway_ObjectMeta = ObjectMeta r cp '''',
                      NatGateway_Spec = NatGatewaySpec_zero r\<rparr>]
      \<and> snd (NatGateway_Create r n cp) =
        (case Create n \<lparr>NatGateway_ObjectMeta = ObjectMeta r cp '''',
                        NatGateway_Spec = NatGatewaySpec_zero r\<rparr> of
           None \<Rightarrow> None
         | Some err \<Rightarrow>
             Some (Errorf ''creating internet gateway kube object, ''
                    (Errorf ''creating internet gateway kube object, '' err))))
 \<and> (Get n (ControlPlane_Namespace cp, ControlPlane_Name cp) = None \<longrightarrow>
      NatGateway_Create r n cp =
        ([Call_Get (ControlPlane_Namespace cp, ControlPlane_Name cp)], None))
 \<and> (Get n (ControlPlane_Namespace cp, ControlPlane_Name cp) = Some e \<and> \<not> IsNotFound r e \<longrightarrow>
      NatGateway_Create r n cp =
        ([Call_Get (ControlPlane_Namespace cp, ControlPlane_Name cp)],
         Some (Errorf ''getting internet gateway object, '' e))
      \<and> errors_Is (Errorf ''getting internet gateway object, '' e) e)"
proof -
  have "errors_Is e' e'" for e'
    by (cases e') simp_all
  then show ?thesis
    by (simp add: NatGateway_Create_def NatGateway_exists_def NatGateway_create_def Let_def
        split: option.splits)
qed

theorem NatGateway_Create_cases_witness:
  "NatGateway_Create resource_pkg0 (kubeClient (Some (ProviderError ''NotFound'')) None) controlPlane0 =
     ([Call_Get (''default'', ''x''),
       Call_Create \<lparr>NatGateway_ObjectMeta = (''default'', ''x''), NatGateway_Spec = ()\<rparr>], None)
 \<and> NatGateway_Create resource_pkg0 (kubeClient None None) controlPlane0 =
     ([Call_Get (''default'', ''x'')], None)
 \<and> NatGateway_Create resource_pkg0 (kubeClient (Some (ProviderError ''Timeout'')) None) controlPlane0 =
     ([Call_Get (''default'', ''x'')],
      Some (Errorf ''getting internet gateway object, '' (ProviderError ''Timeout'')))"
  using NatGateway_Create_cases[where r = resource_pkg0 and cp = controlPlane0
      and n = "kubeClient (Some (ProviderError ''NotFound'')) None" and e = "ProviderError ''NotFound''"]
    NatGateway_Create_cases[where r = resource_pkg0 and cp = controlPlane0
      and n = "kubeClient None None"]
    NatGateway_Create_cases[where r = resource_pkg0 and cp = controlPlane0
      and n = "kubeClient (Some (ProviderError ''Timeout'')) None" and e = "ProviderError ''Timeout''"]
  by (simp add: resource_pkg0_def kubeClient_def controlPlane0_def prod_eq_iff)

text \<open>
  C9, as the claim words it, fails where the child's create fails: the \<open>Get\<close> answers
  not-found, one create is sent, and \<open>Create\<close> returns the create's error wrapped twice,
  not nil.
\<close>

theorem NatGateway_Create_create_error_counterexample:
  "NatGateway_Create resource_pkg0
     (kubeClient (Some (ProviderError ''NotFound'')) (Some (ProviderError ''Timeout''))) controlPlane0 =
     ([Call_Get (''default'', ''x''),
       Call_Create \<lparr>NatGateway_ObjectMeta = (''default'', ''x''), NatGateway_Spec = ()\<rparr>],
      Some (Errorf ''creating internet gateway kube object, ''
             (Errorf ''creating internet gateway kube object, '' (ProviderError ''Timeout''))))"
  by (simp add: NatGateway_Create_def NatGateway_exists_def NatGateway_create_def
      resource_pkg0_def kubeClient_def controlPlane0_def)

end
